theory Spec2Isabelle
  imports Main
begin

section \<open>JSON values, responses and exceptions\<close>

text \<open>
  The values that \<^verbatim>\<open>request.get_json()\<close> hands to a handler and that
  \<^verbatim>\<open>jsonify\<close> serialises. Numbers are integers; booleans and fractional numbers
  are not represented. A Python dict is an association list read through \<open>map_of\<close>.
\<close>

datatype json =
    JNull
  | JInt int
  | JStr string
  | JArr "json list"
  | JObj "(string \<times> json) list"

datatype body = JsonBody json | TextBody string

record response =
  status :: nat
  body :: body

datatype py_exn =
    AttributeError string
  | ValueError string
  | IntegrityError string
  | OverflowError string
  | OtherError string

text \<open>\<^verbatim>\<open>str(e)\<close>: the message an exception carries.\<close>

fun str :: "py_exn \<Rightarrow> string" where
  "str (AttributeError m) = m"
| "str (ValueError m) = m"
| "str (IntegrityError m) = m"
| "str (OverflowError m) = m"
| "str (OtherError m) = m"

text \<open>A handler either returns a response or lets an exception escape.\<close>

datatype outcome = Returns response | Raises py_exn

text \<open>\<^verbatim>\<open>data.get(key)\<close> on a dict: the value, or \<^verbatim>\<open>None\<close> when the key is absent.\<close>

definition dict_get :: "(string \<times> json) list \<Rightarrow> string \<Rightarrow> json" where
  "dict_get kvs k = (case map_of kvs k of None \<Rightarrow> JNull | Some v \<Rightarrow> v)"

text \<open>The name of the Python type of a parsed JSON value, as an \<^verbatim>\<open>AttributeError\<close> reports it.\<close>

fun py_type_name :: "json \<Rightarrow> string" where
  "py_type_name JNull = ''NoneType''"
| "py_type_name (JInt _) = ''int''"
| "py_type_name (JStr _) = ''str''"
| "py_type_name (JArr _) = ''list''"
| "py_type_name (JObj _) = ''dict''"

definition make_response :: "body \<Rightarrow> nat \<Rightarrow> response" where
  "make_response b code = \<lparr>status = code, body = b\<rparr>"

definition jsonify :: "json \<Rightarrow> body" where
  "jsonify j = JsonBody j"

definition make_error_response :: "string \<Rightarrow> nat \<Rightarrow> response" where
  "make_error_response message status_code =
     make_response (jsonify (JObj [(''error'', JStr message)])) status_code"

definition make_validation_error_response :: "string list \<Rightarrow> nat \<Rightarrow> response" where
  "make_validation_error_response errors status_code =
     make_response (jsonify (JObj [(''errors'', JArr (map JStr errors))])) status_code"

section \<open>The relational store\<close>

record restaurant =
  r_id :: int
  r_name :: string
  r_address :: "string option"

record pizza =
  p_id :: int
  p_name :: string
  p_ingredients :: string

record restaurant_pizza =
  rp_id :: int
  rp_price :: int
  rp_pizza_id :: int
  rp_restaurant_id :: int

text \<open>The three tables, each in the order \<^verbatim>\<open>query.all()\<close> returns its rows.\<close>

record tables =
  restaurants :: "restaurant list"
  pizzas :: "pizza list"
  restaurant_pizzas :: "restaurant_pizza list"

text \<open>An association object that has been constructed but not yet flushed: it has no id.\<close>

record unsaved_rp =
  u_price :: int
  u_pizza_id :: int
  u_restaurant_id :: int

text \<open>
  The database as one request sees it: the committed tables and what the request's
  session holds pending (\<^verbatim>\<open>db.session.add\<close>, \<^verbatim>\<open>db.session.delete\<close>).
\<close>

record db =
  persisted :: tables
  added :: "unsaved_rp list"
  deleted :: "restaurant list"

text \<open>Every request starts with an empty session over the committed tables.\<close>

definition begin_session :: "tables \<Rightarrow> db" where
  "begin_session t = \<lparr>persisted = t, added = [], deleted = []\<rparr>"

text \<open>
  What lies outside the program and differs from one request to the next: whether the
  store raises at the commit (an integrity violation, a lost connection), whether building
  the reply raises after the commit (\<^verbatim>\<open>new_rp.to_dict()\<close> reloads the committed row and its
  restaurant and pizza from the store), and what the ORM and the store make of an
  identifier that is not an integer: an exception, no row, or the integer key it is
  compared as. The spec gives no rule for the last, so it is a parameter.
\<close>

record env =
  commit_fault :: "py_exn option"
  reply_fault :: "py_exn option"
  other_ident :: "json \<Rightarrow> py_exn + int option"

text \<open>
  The store of \<^verbatim>\<open>app.py\<close> is SQLite unless \<^verbatim>\<open>DB_URI\<close> says otherwise; its integers have 64
  bits, and its driver raises an \<^verbatim>\<open>OverflowError\<close> when asked to bind a larger one.
\<close>

definition fits_int64 :: "int \<Rightarrow> bool" where
  "fits_int64 i \<longleftrightarrow> - (2 ^ 63) \<le> i \<and> i < 2 ^ 63"

text \<open>
  Modelled from the spec: \<^verbatim>\<open>Model.query.get(ident)\<close>, the lookup by primary key of the
  models of \<^verbatim>\<open>models.py\<close>, which is not among the sources. \<open>query_get_pk\<close> is the lookup
  with a Python integer (the \<^verbatim>\<open><int:id>\<close> of a path): it raises when the store cannot bind
  the integer, and otherwise returns the row with that id or \<^verbatim>\<open>None\<close>. \<open>query_get\<close> is
  the lookup with a value of a request body: \<^verbatim>\<open>None\<close> matches no row, an integer is
  looked up as such, and any other value is what the request's \<open>other_ident\<close> makes of it.
\<close>

definition query_get_pk :: "('row \<Rightarrow> int) \<Rightarrow> 'row list \<Rightarrow> int \<Rightarrow> py_exn + 'row option" where
  "query_get_pk key rows i =
     (if fits_int64 i then Inr (find (\<lambda>row. key row = i) rows)
      else Inl (OverflowError ''Python int too large to convert to SQLite INTEGER''))"

definition query_get ::
  "(json \<Rightarrow> py_exn + int option) \<Rightarrow> ('row \<Rightarrow> int) \<Rightarrow> 'row list \<Rightarrow> json \<Rightarrow> py_exn + 'row option" where
  "query_get other key rows ident =
     (case ident of
        JNull \<Rightarrow> Inr None
      | JInt i \<Rightarrow> query_get_pk key rows i
      | _ \<Rightarrow>
          (case other ident of
             Inl e \<Rightarrow> Inl e
           | Inr None \<Rightarrow> Inr None
           | Inr (Some k) \<Rightarrow> query_get_pk key rows k))"

text \<open>
  Modelled from the spec: the relationships of \<^verbatim>\<open>models.py\<close>.
  \<^verbatim>\<open>restaurant.restaurant_pizzas\<close> is the collection of associations the restaurant owns,
  \<^verbatim>\<open>rp.pizza\<close> the pizza an association links to (\<^verbatim>\<open>None\<close> when no pizza has that id).
\<close>

definition owned_restaurant_pizzas :: "tables \<Rightarrow> restaurant \<Rightarrow> restaurant_pizza list" where
  "owned_restaurant_pizzas t r =
     filter (\<lambda>rp. rp_restaurant_id rp = r_id r) (restaurant_pizzas t)"

definition rp_pizza :: "tables \<Rightarrow> restaurant_pizza \<Rightarrow> pizza option" where
  "rp_pizza t rp = find (\<lambda>p. p_id p = rp_pizza_id rp) (pizzas t)"

text \<open>
  Modelled from the spec: the price validator of \<^verbatim>\<open>models.py\<close>, run when a
  \<^verbatim>\<open>RestaurantPizza\<close> is constructed. The price must be an integer between 1 and 30
  inclusive; anything else raises a \<^verbatim>\<open>ValueError\<close> carrying a price-range message, whose
  wording the spec leaves open.
\<close>

definition price_range_message :: string where
  "price_range_message = ''Price must be between 1 and 30''"

definition validate_price :: "json \<Rightarrow> py_exn + int" where
  "validate_price price =
     (case price of
        JInt p \<Rightarrow> if 1 \<le> p \<and> p \<le> 30 then Inr p else Inl (ValueError price_range_message)
      | _ \<Rightarrow> Inl (ValueError price_range_message))"

definition RestaurantPizza :: "json \<Rightarrow> int \<Rightarrow> int \<Rightarrow> py_exn + unsaved_rp" where
  "RestaurantPizza price pizza_id restaurant_id =
     (case validate_price price of
        Inl e \<Rightarrow> Inl e
      | Inr p \<Rightarrow> Inr \<lparr>u_price = p, u_pizza_id = pizza_id, u_restaurant_id = restaurant_id\<rparr>)"

text \<open>The store generates the id of a new row: one more than the largest id in the table.\<close>

definition fresh_id :: "int list \<Rightarrow> int" where
  "fresh_id ids = fold max ids 0 + 1"

definition assign_id :: "tables \<Rightarrow> unsaved_rp \<Rightarrow> restaurant_pizza" where
  "assign_id t u =
     \<lparr>rp_id = fresh_id (map rp_id (restaurant_pizzas t)),
      rp_price = u_price u,
      rp_pizza_id = u_pizza_id u,
      rp_restaurant_id = u_restaurant_id u\<rparr>"

definition insert_row :: "unsaved_rp \<Rightarrow> tables \<Rightarrow> tables" where
  "insert_row u t = t\<lparr>restaurant_pizzas := restaurant_pizzas t @ [assign_id t u]\<rparr>"

text \<open>
  Modelled from the spec: the cascade of \<^verbatim>\<open>models.py\<close>. Deleting a restaurant deletes its
  row and every association row it owns.
\<close>

definition delete_row :: "restaurant \<Rightarrow> tables \<Rightarrow> tables" where
  "delete_row r t =
     t\<lparr>restaurants := filter (\<lambda>x. r_id x \<noteq> r_id r) (restaurants t),
       restaurant_pizzas := filter (\<lambda>rp. rp_restaurant_id rp \<noteq> r_id r) (restaurant_pizzas t)\<rparr>"

definition session_add :: "db \<Rightarrow> unsaved_rp \<Rightarrow> db" where
  "session_add d u = d\<lparr>added := added d @ [u]\<rparr>"

definition session_delete :: "db \<Rightarrow> restaurant \<Rightarrow> db" where
  "session_delete d r = d\<lparr>deleted := deleted d @ [r]\<rparr>"

definition flush :: "db \<Rightarrow> tables" where
  "flush d = fold insert_row (added d) (fold delete_row (deleted d) (persisted d))"

text \<open>
  \<^verbatim>\<open>db.session.commit()\<close>. The first argument is what the store does at this commit:
  \<open>None\<close> when it accepts the transaction, \<open>Some e\<close> when it raises \<open>e\<close> (an integrity
  violation, a lost connection); then nothing is written and the session keeps its
  pending work until it is rolled back.
\<close>

definition session_commit :: "py_exn option \<Rightarrow> db \<Rightarrow> py_exn option \<times> db" where
  "session_commit fault d =
     (case fault of
        Some e \<Rightarrow> (Some e, d)
      | None \<Rightarrow> (None, \<lparr>persisted = flush d, added = [], deleted = []\<rparr>))"

definition session_rollback :: "db \<Rightarrow> db" where
  "session_rollback d = d\<lparr>added := [], deleted := []\<rparr>"

section \<open>Serialisation\<close>

text \<open>
  Modelled from the spec: \<^verbatim>\<open>to_dict\<close> of the models of \<^verbatim>\<open>models.py\<close>. With the rule
  \<^verbatim>\<open>-restaurant_pizzas\<close> a restaurant is id, name, address and a pizza is id, name,
  ingredients; an association is id, price, restaurant_id, pizza_id and its nested
  restaurant and pizza.
\<close>

definition restaurant_to_dict :: "restaurant \<Rightarrow> (string \<times> json) list" where
  "restaurant_to_dict r =
     [(''id'', JInt (r_id r)),
      (''name'', JStr (r_name r)),
      (''address'', (case r_address r of None \<Rightarrow> JNull | Some a \<Rightarrow> JStr a))]"

definition pizza_to_dict :: "pizza \<Rightarrow> (string \<times> json) list" where
  "pizza_to_dict p =
     [(''id'', JInt (p_id p)),
      (''name'', JStr (p_name p)),
      (''ingredients'', JStr (p_ingredients p))]"

definition restaurant_pizza_to_dict ::
  "restaurant_pizza \<Rightarrow> restaurant \<Rightarrow> pizza \<Rightarrow> (string \<times> json) list" where
  "restaurant_pizza_to_dict rp r p =
     [(''id'', JInt (rp_id rp)),
      (''price'', JInt (rp_price rp)),
      (''restaurant_id'', JInt (rp_restaurant_id rp)),
      (''pizza_id'', JInt (rp_pizza_id rp)),
      (''restaurant'', JObj (restaurant_to_dict r)),
      (''pizza'', JObj (pizza_to_dict p))]"

section \<open>The request handlers\<close>

definition index :: "response" where
  "index = make_response (TextBody ''<h1>Restaurant-Pizza API</h1>'') 200"

definition Restaurants_get :: "tables \<Rightarrow> db \<times> outcome" where
  "Restaurants_get t =
     (let restaurants = restaurants t;
          serialized_restaurants = map (\<lambda>r. JObj (restaurant_to_dict r)) restaurants
      in (begin_session t, Returns (make_response (jsonify (JArr serialized_restaurants)) 200)))"

text \<open>One entry of the nested \<^verbatim>\<open>pizzas\<close> list: the pizza's fields and the association's price.\<close>

definition pizza_entry :: "pizza \<Rightarrow> restaurant_pizza \<Rightarrow> json" where
  "pizza_entry p rp =
     JObj [(''id'', JInt (p_id p)),
           (''name'', JStr (p_name p)),
           (''ingredients'', JStr (p_ingredients p)),
           (''price'', JInt (rp_price rp))]"

text \<open>
  The loop over \<^verbatim>\<open>restaurant.restaurant_pizzas\<close>, appending to \<^verbatim>\<open>pizzas_data\<close>. Reading
  \<^verbatim>\<open>rp.pizza.id\<close> raises an \<^verbatim>\<open>AttributeError\<close> when the association links to no pizza.
\<close>

fun build_pizzas_data ::
  "tables \<Rightarrow> json list \<Rightarrow> restaurant_pizza list \<Rightarrow> py_exn + json list" where
  "build_pizzas_data t pizzas_data [] = Inr pizzas_data"
| "build_pizzas_data t pizzas_data (rp # rps) =
     (case rp_pizza t rp of
        None \<Rightarrow> Inl (AttributeError (py_type_name JNull @ '' object has no attribute id''))
      | Some p \<Rightarrow> build_pizzas_data t (pizzas_data @ [pizza_entry p rp]) rps)"

definition RestaurantByID_get :: "tables \<Rightarrow> int \<Rightarrow> db \<times> outcome" where
  "RestaurantByID_get t ident =
     (case query_get_pk r_id (restaurants t) ident of
        Inl e \<Rightarrow> (begin_session t, Raises e)
      | Inr None \<Rightarrow> (begin_session t, Returns (make_error_response ''Restaurant not found'' 404))
      | Inr (Some restaurant) \<Rightarrow>
          (let serialized_restaurant = restaurant_to_dict restaurant in
           case build_pizzas_data t [] (owned_restaurant_pizzas t restaurant) of
             Inl e \<Rightarrow> (begin_session t, Raises e)
           | Inr pizzas_data \<Rightarrow>
               (begin_session t,
                Returns (make_response
                  (jsonify (JObj (serialized_restaurant @ [(''pizzas'', JArr pizzas_data)]))) 200))))"

definition RestaurantByID_delete :: "py_exn option \<Rightarrow> tables \<Rightarrow> int \<Rightarrow> db \<times> outcome" where
  "RestaurantByID_delete fault t ident =
     (case query_get_pk r_id (restaurants t) ident of
        Inl e \<Rightarrow> (begin_session t, Raises e)
      | Inr None \<Rightarrow> (begin_session t, Returns (make_error_response ''Restaurant not found'' 404))
      | Inr (Some restaurant) \<Rightarrow>
          (case session_commit fault (session_delete (begin_session t) restaurant) of
             (None, d) \<Rightarrow> (d, Returns (make_response (TextBody []) 204))
           | (Some e, d) \<Rightarrow>
               (session_rollback d,
                Returns (make_error_response (''Failed to delete restaurant: '' @ str e) 500))))"

definition Pizzas_get :: "tables \<Rightarrow> db \<times> outcome" where
  "Pizzas_get t =
     (let pizzas = pizzas t;
          serialized_pizzas = map (\<lambda>p. JObj (pizza_to_dict p)) pizzas
      in (begin_session t, Returns (make_response (jsonify (JArr serialized_pizzas)) 200)))"

text \<open>
  The body of the \<^verbatim>\<open>try\<close> block of \<^verbatim>\<open>RestaurantPizzas.post\<close>: construct the association,
  add it, commit, then build the reply from the committed object. Each of the three steps
  can raise; the last one raises with the row already committed. It yields the exception
  raised or the success response, and the database as it then stands.
\<close>

definition post_try ::
  "env \<Rightarrow> db \<Rightarrow> json \<Rightarrow> pizza \<Rightarrow> restaurant \<Rightarrow> (py_exn + response) \<times> db" where
  "post_try e d price pizza restaurant =
     (case RestaurantPizza price (p_id pizza) (r_id restaurant) of
        Inl x \<Rightarrow> (Inl x, d)
      | Inr new_rp \<Rightarrow>
          (case session_commit (commit_fault e) (session_add d new_rp) of
             (Some x, d') \<Rightarrow> (Inl x, d')
           | (None, d') \<Rightarrow>
               (case reply_fault e of
                  Some x \<Rightarrow> (Inl x, d')
                | None \<Rightarrow>
                    (Inr (make_response
                       (jsonify (JObj (restaurant_pizza_to_dict
                          (assign_id (persisted d) new_rp) restaurant pizza))) 201), d'))))"

text \<open>The \<^verbatim>\<open>except\<close> clauses of \<^verbatim>\<open>RestaurantPizzas.post\<close>, in their order.\<close>

fun post_except :: "py_exn \<Rightarrow> response" where
  "post_except (ValueError m) = make_validation_error_response [m] 400"
| "post_except (IntegrityError m) =
     make_validation_error_response
       [''A database integrity error occurred (e.g., invalid ID or duplicate entry).''] 400"
| "post_except e =
     make_error_response (''An unexpected server error occurred: '' @ str e) 500"

definition RestaurantPizzas_post :: "env \<Rightarrow> tables \<Rightarrow> json \<Rightarrow> db \<times> outcome" where
  "RestaurantPizzas_post e t data =
     (case data of
        JObj kvs \<Rightarrow>
          (let price = dict_get kvs ''price'';
               pizza_id = dict_get kvs ''pizza_id'';
               restaurant_id = dict_get kvs ''restaurant_id''
           in if \<not> list_all (\<lambda>b. b) [price \<noteq> JNull, pizza_id \<noteq> JNull, restaurant_id \<noteq> JNull]
              then (begin_session t,
                    Returns (make_validation_error_response
                      [''Missing required fields: price, pizza_id, restaurant_id''] 400))
              else
                (case query_get (other_ident e) r_id (restaurants t) restaurant_id of
                   Inl x \<Rightarrow> (begin_session t, Raises x)
                 | Inr restaurant \<Rightarrow>
                     (case query_get (other_ident e) p_id (pizzas t) pizza_id of
                        Inl x \<Rightarrow> (begin_session t, Raises x)
                      | Inr pizza \<Rightarrow>
                          (case restaurant of
                             None \<Rightarrow>
                               (begin_session t,
                                Returns (make_error_response ''Restaurant not found'' 404))
                           | Some r \<Rightarrow>
                               (case pizza of
                                  None \<Rightarrow>
                                    (begin_session t,
                                     Returns (make_error_response ''Pizza not found'' 404))
                                | Some p \<Rightarrow>
                                    (case post_try e (begin_session t) price p r of
                                       (Inr resp, d) \<Rightarrow> (d, Returns resp)
                                     | (Inl x, d) \<Rightarrow>
                                         (session_rollback d, Returns (post_except x))))))))
      | _ \<Rightarrow>
          (begin_session t,
           Raises (AttributeError (py_type_name data @ '' object has no attribute get''))))"

text \<open>The route table: each request of the HTTP surface and the handler it reaches.\<close>

datatype request =
    GetIndex
  | GetRestaurants
  | GetRestaurantByID int
  | DeleteRestaurantByID int
  | GetPizzas
  | PostRestaurantPizzas json

fun handle :: "env \<Rightarrow> tables \<Rightarrow> request \<Rightarrow> db \<times> outcome" where
  "handle e t GetIndex = (begin_session t, Returns index)"
| "handle e t GetRestaurants = Restaurants_get t"
| "handle e t (GetRestaurantByID i) = RestaurantByID_get t i"
| "handle e t (DeleteRestaurantByID i) = RestaurantByID_delete (commit_fault e) t i"
| "handle e t GetPizzas = Pizzas_get t"
| "handle e t (PostRestaurantPizzas data) = RestaurantPizzas_post e t data"

text \<open>
  The integrity of the store the data model prescribes: ids are unique within a table,
  every association references an existing restaurant and an existing pizza, and every
  stored price is between 1 and 30.
\<close>

definition wf_tables :: "tables \<Rightarrow> bool" where
  "wf_tables t \<longleftrightarrow>
     distinct (map r_id (restaurants t)) \<and>
     distinct (map p_id (pizzas t)) \<and>
     distinct (map rp_id (restaurant_pizzas t)) \<and>
     list_all (\<lambda>rp. rp_restaurant_id rp \<in> set (map r_id (restaurants t)) \<and>
                     rp_pizza_id rp \<in> set (map p_id (pizzas t)) \<and>
                     1 \<le> rp_price rp \<and> rp_price rp \<le> 30) (restaurant_pizzas t)"

text \<open>A small store used to run the handlers on concrete requests.\<close>

definition example_tables :: tables where
  "example_tables =
     \<lparr>restaurants =
        [\<lparr>r_id = 1, r_name = ''Sottocasa'', r_address = Some ''Harlem''\<rparr>,
         \<lparr>r_id = 2, r_name = ''PizzArte'', r_address = None\<rparr>],
      pizzas =
        [\<lparr>p_id = 1, p_name = ''Emma'', p_ingredients = ''Dough, Sauce, Cheese''\<rparr>,
         \<lparr>p_id = 2, p_name = ''Geri'', p_ingredients = ''Dough, Pesto''\<rparr>],
      restaurant_pizzas =
        [\<lparr>rp_id = 1, rp_price = 5, rp_pizza_id = 1, rp_restaurant_id = 1\<rparr>,
         \<lparr>rp_id = 2, rp_price = 10, rp_pizza_id = 2, rp_restaurant_id = 1\<rparr>,
         \<lparr>rp_id = 3, rp_price = 7, rp_pizza_id = 1, rp_restaurant_id = 2\<rparr>]\<rparr>"

text \<open>
  A request during which the store raises nothing and identifiers that are not integers
  match no row.
\<close>

definition quiet_env :: env where
  "quiet_env = \<lparr>commit_fault = None, reply_fault = None, other_ident = (\<lambda>v. Inr None)\<rparr>"


section \<open>Supporting lemmas\<close>

lemma query_get_JInt [simp]:
  "query_get other key rows (JInt i) = query_get_pk key rows i"
  by (simp add: query_get_def)

lemma query_get_JNull [simp]:
  "query_get other key rows JNull = Inr None"
  by (simp add: query_get_def)

lemma query_get_pk_fits:
  "fits_int64 i \<Longrightarrow> query_get_pk key rows i = Inr (find (\<lambda>row. key row = i) rows)"
  by (simp add: query_get_pk_def)

lemma query_get_pk_Some:
  "query_get_pk key rows i = Inr (Some row) \<Longrightarrow>
   fits_int64 i \<and> find (\<lambda>row. key row = i) rows = Some row \<and> key row = i \<and> row \<in> set rows"
  by (auto simp: query_get_pk_def find_Some_iff in_set_conv_nth split: if_splits)

lemma query_get_Some:
  "query_get other key rows ident = Inr (Some row) \<Longrightarrow> row \<in> set rows"
  by (cases ident)
     (auto simp: query_get_def dest: query_get_pk_Some split: sum.splits option.splits)

lemma fits_int64_small [simp]: "fits_int64 0" "fits_int64 1" "fits_int64 2" "fits_int64 3"
  by (simp_all add: fits_int64_def)

lemma not_fits_int64_bound [simp]: "\<not> fits_int64 (2 ^ 63)" "\<not> fits_int64 9223372036854775808"
  by (simp_all add: fits_int64_def)

lemma fold_max_ge: "(x::int) \<in> set xs \<Longrightarrow> x \<le> fold max xs a"
  by (induction xs arbitrary: a rule: rev_induct) (auto simp: le_max_iff_disj)

lemma fresh_id_notin: "fresh_id ids \<notin> set ids"
proof
  assume "fresh_id ids \<in> set ids"
  then have "fresh_id ids \<le> fold max ids 0" by (rule fold_max_ge)
  then show False by (simp add: fresh_id_def)
qed

lemma begin_session_simps [simp]:
  "persisted (begin_session t) = t"
  "added (begin_session t) = []"
  "deleted (begin_session t) = []"
  by (simp_all add: begin_session_def)

lemma session_rollback_begin [simp]:
  "session_rollback (begin_session t) = begin_session t"
  by (simp add: session_rollback_def begin_session_def)

lemma session_rollback_add [simp]:
  "session_rollback (session_add (begin_session t) u) = begin_session t"
  by (simp add: session_rollback_def session_add_def begin_session_def)

lemma session_rollback_delete [simp]:
  "session_rollback (session_delete (begin_session t) r) = begin_session t"
  by (simp add: session_rollback_def session_delete_def begin_session_def)

lemma commit_add_begin:
  "session_commit None (session_add (begin_session t) u) = (None, begin_session (insert_row u t))"
  by (simp add: session_commit_def session_add_def flush_def begin_session_def)

lemma commit_delete_begin:
  "session_commit None (session_delete (begin_session t) r) = (None, begin_session (delete_row r t))"
  by (simp add: session_commit_def session_delete_def flush_def begin_session_def)

lemma commit_fault_keeps: "session_commit (Some x) d = (Some x, d)"
  by (simp add: session_commit_def)

lemmas response_defs =
  make_error_response_def make_validation_error_response_def make_response_def jsonify_def

lemma dict_get_simps [simp]:
  "dict_get [] k = JNull"
  "dict_get ((k', v) # kvs) k = (if k = k' then v else dict_get kvs k)"
  by (simp_all add: dict_get_def)

lemma quiet_env_simps [simp]:
  "commit_fault quiet_env = None"
  "reply_fault quiet_env = None"
  "other_ident quiet_env v = Inr None"
  by (simp_all add: quiet_env_def)

lemma post_except_status: "status (post_except x) \<noteq> 201"
  by (cases x) (simp_all add: response_defs)

text \<open>
  What the \<^verbatim>\<open>try\<close> block leaves behind: either an exception with a session whose rollback
  restores the request's starting point, or a committed row with a valid price, with or
  without an exception raised after the commit.
\<close>

lemma post_try_db:
  assumes "post_try e (begin_session t) price p r = (res, d)"
  shows "(\<exists>x. res = Inl x \<and> session_rollback d = begin_session t) \<or>
         (\<exists>pr. 1 \<le> pr \<and> pr \<le> 30 \<and>
            d = begin_session
                  (insert_row \<lparr>u_price = pr, u_pizza_id = p_id p, u_restaurant_id = r_id r\<rparr> t))"
proof (cases "RestaurantPizza price (p_id p) (r_id r)")
  case (Inl x)
  with assms show ?thesis by (auto simp: post_try_def)
next
  case (Inr u)
  then obtain pr where pr: "1 \<le> pr" "pr \<le> 30"
    and u: "u = \<lparr>u_price = pr, u_pizza_id = p_id p, u_restaurant_id = r_id r\<rparr>"
    by (auto simp: RestaurantPizza_def validate_price_def split: json.splits if_splits)
  show ?thesis
  proof (cases "commit_fault e")
    case (Some x)
    with assms Inr show ?thesis by (auto simp: post_try_def commit_fault_keeps)
  next
    case None
    with assms Inr have "d = begin_session (insert_row u t)"
      by (auto simp: post_try_def commit_add_begin split: option.splits)
    with pr u show ?thesis by blast
  qed
qed

lemma post_try_before_reply:
  assumes "reply_fault e = None"
    and "post_try e (begin_session t) price p r = (Inl x, d)"
  shows "session_rollback d = begin_session t"
  using assms
  by (auto simp: post_try_def session_commit_def split: sum.splits option.splits)

lemma post_try_status:
  "post_try e d0 price p r = (Inr resp, d) \<Longrightarrow> status resp = 201"
  by (auto simp: post_try_def session_commit_def response_defs split: sum.splits option.splits)

text \<open>
  As long as building the reply does not raise, a \<^verbatim>\<open>POST /restaurant_pizzas\<close> that does not
  answer 201 leaves the database as it found it, whatever the body, the store's answer at
  the commit and the outcome of the lookups.
\<close>

lemma post_failure_unchanged:
  assumes "reply_fault e = None"
    and "\<not> (\<exists>resp. snd (RestaurantPizzas_post e t data) = Returns resp \<and> status resp = 201)"
  shows "fst (RestaurantPizzas_post e t data) = begin_session t"
proof (cases data)
  case (JObj kvs)
  show ?thesis
  proof (cases "query_get (other_ident e) r_id (restaurants t) (dict_get kvs ''restaurant_id'')")
    case (Inl x)
    with JObj show ?thesis by (simp add: RestaurantPizzas_post_def Let_def)
  next
    case (Inr restaurant)
    note rl = this
    show ?thesis
    proof (cases "query_get (other_ident e) p_id (pizzas t) (dict_get kvs ''pizza_id'')")
      case (Inl x)
      with JObj rl show ?thesis by (simp add: RestaurantPizzas_post_def Let_def)
    next
      case (Inr pizza)
      note pl = this
      show ?thesis
      proof (cases restaurant)
        case None
        with JObj rl pl show ?thesis by (simp add: RestaurantPizzas_post_def Let_def)
      next
        case (Some r)
        note r = this
        show ?thesis
        proof (cases pizza)
          case None
          with JObj rl pl r show ?thesis by (simp add: RestaurantPizzas_post_def Let_def)
        next
          case (Some p)
          obtain res d where
            pt: "post_try e (begin_session t) (dict_get kvs ''price'') p r = (res, d)"
            by (cases "post_try e (begin_session t) (dict_get kvs ''price'') p r")
          show ?thesis
          proof (cases res)
            case (Inl x)
            with pt assms(1) have "session_rollback d = begin_session t"
              by (simp add: post_try_before_reply)
            with JObj rl pl r Some pt Inl show ?thesis
              by (simp add: RestaurantPizzas_post_def Let_def)
          next
            case (Inr resp)
            with pt have "status resp = 201" by (simp add: post_try_status)
            with JObj rl pl r Some pt Inr assms(2) show ?thesis
              by (auto simp: RestaurantPizzas_post_def Let_def split: if_splits)
          qed
        qed
      qed
    qed
  qed
qed (simp_all add: RestaurantPizzas_post_def)

lemma post_persisted:
  "persisted (fst (RestaurantPizzas_post e t data)) = t \<or>
   (\<exists>u. u_restaurant_id u \<in> r_id ` set (restaurants t) \<and>
        u_pizza_id u \<in> p_id ` set (pizzas t) \<and> 1 \<le> u_price u \<and> u_price u \<le> 30 \<and>
        persisted (fst (RestaurantPizzas_post e t data)) = insert_row u t)"
proof (cases data)
  case (JObj kvs)
  show ?thesis
  proof (cases "query_get (other_ident e) r_id (restaurants t) (dict_get kvs ''restaurant_id'')")
    case (Inl x)
    with JObj show ?thesis by (simp add: RestaurantPizzas_post_def Let_def)
  next
    case (Inr restaurant)
    note rl = this
    show ?thesis
    proof (cases "query_get (other_ident e) p_id (pizzas t) (dict_get kvs ''pizza_id'')")
      case (Inl x)
      with JObj rl show ?thesis by (simp add: RestaurantPizzas_post_def Let_def)
    next
      case (Inr pizza)
      note pl = this
      show ?thesis
      proof (cases restaurant)
        case None
        with JObj rl pl show ?thesis by (simp add: RestaurantPizzas_post_def Let_def)
      next
        case (Some r)
        note r = this
        with rl have rmem: "r_id r \<in> r_id ` set (restaurants t)"
          by (auto dest: query_get_Some)
        show ?thesis
        proof (cases pizza)
          case None
          with JObj rl pl r show ?thesis by (simp add: RestaurantPizzas_post_def Let_def)
        next
          case (Some p)
          with pl have pmem: "p_id p \<in> p_id ` set (pizzas t)"
            by (auto dest: query_get_Some)
          obtain res d where
            pt: "post_try e (begin_session t) (dict_get kvs ''price'') p r = (res, d)"
            by (cases "post_try e (begin_session t) (dict_get kvs ''price'') p r")
          have fst_eq: "fst (RestaurantPizzas_post e t data) = begin_session t \<or>
                        fst (RestaurantPizzas_post e t data) = session_rollback d \<or>
                        fst (RestaurantPizzas_post e t data) = d"
            using JObj rl pl r Some pt
            by (cases res) (auto simp: RestaurantPizzas_post_def Let_def)
          from post_try_db [OF pt] show ?thesis
          proof
            assume "\<exists>x. res = Inl x \<and> session_rollback d = begin_session t"
            then obtain x where "res = Inl x" "session_rollback d = begin_session t" by blast
            with JObj rl pl r Some pt show ?thesis
              by (auto simp: RestaurantPizzas_post_def Let_def)
          next
            assume "\<exists>pr. 1 \<le> pr \<and> pr \<le> 30 \<and>
              d = begin_session
                (insert_row \<lparr>u_price = pr, u_pizza_id = p_id p, u_restaurant_id = r_id r\<rparr> t)"
            then obtain pr where pr: "1 \<le> pr" "pr \<le> 30"
              and d: "d = begin_session
                (insert_row \<lparr>u_price = pr, u_pizza_id = p_id p, u_restaurant_id = r_id r\<rparr> t)"
              by blast
            from fst_eq d have
              "persisted (fst (RestaurantPizzas_post e t data)) = t \<or>
               persisted (fst (RestaurantPizzas_post e t data)) =
                 insert_row \<lparr>u_price = pr, u_pizza_id = p_id p, u_restaurant_id = r_id r\<rparr> t"
              by auto
            then show ?thesis
            proof
              assume "persisted (fst (RestaurantPizzas_post e t data)) = t"
              then show ?thesis by simp
            next
              let ?u = "\<lparr>u_price = pr, u_pizza_id = p_id p, u_restaurant_id = r_id r\<rparr>"
              assume "persisted (fst (RestaurantPizzas_post e t data)) = insert_row ?u t"
              with pr rmem pmem show ?thesis
                by (intro disjI2 exI [of _ ?u]) simp
            qed
          qed
        qed
      qed
    qed
  qed
qed (simp_all add: RestaurantPizzas_post_def)

lemma build_pizzas_data_ok:
  "list_all (\<lambda>rp. rp_pizza t rp \<noteq> None) rps \<Longrightarrow>
   build_pizzas_data t acc rps =
     Inr (acc @ map (\<lambda>rp. pizza_entry (the (rp_pizza t rp)) rp) rps)"
  by (induction rps arbitrary: acc) auto

lemma wf_rp_pizza:
  assumes "wf_tables t" and "rp \<in> set (restaurant_pizzas t)"
  shows "\<exists>p. rp_pizza t rp = Some p \<and> p_id p = rp_pizza_id rp"
proof -
  from assms have "rp_pizza_id rp \<in> p_id ` set (pizzas t)"
    by (auto simp: wf_tables_def list_all_iff)
  then have "find (\<lambda>p. p_id p = rp_pizza_id rp) (pizzas t) \<noteq> None"
    by (auto simp: find_None_iff)
  then obtain p where "find (\<lambda>p. p_id p = rp_pizza_id rp) (pizzas t) = Some p" by auto
  then show ?thesis by (auto simp: rp_pizza_def find_Some_iff)
qed

lemma length_filter_key_one:
  "distinct (map f xs) \<Longrightarrow> i \<in> f ` set xs \<Longrightarrow> length (filter (\<lambda>x. f x = i) xs) = 1"
proof (induction xs)
  case Nil
  then show ?case by simp
next
  case (Cons x xs)
  show ?case
  proof (cases "f x = i")
    case True
    with Cons.prems have "filter (\<lambda>x. f x = i) xs = []"
      by (force simp: filter_empty_conv image_iff)
    with True show ?thesis by simp
  next
    case False
    with Cons show ?thesis by auto
  qed
qed

lemma wf_tables_delete_row:
  "wf_tables t \<Longrightarrow> wf_tables (delete_row r t)"
  by (auto simp: wf_tables_def delete_row_def distinct_map_filter list_all_iff)

lemma wf_tables_insert_row:
  assumes "wf_tables t"
    and "u_restaurant_id u \<in> r_id ` set (restaurants t)"
    and "u_pizza_id u \<in> p_id ` set (pizzas t)"
    and "1 \<le> u_price u" and "u_price u \<le> 30"
  shows "wf_tables (insert_row u t)"
  using assms fresh_id_notin [of "map rp_id (restaurant_pizzas t)"]
  by (auto simp: wf_tables_def insert_row_def assign_id_def list_all_iff)

lemma wf_example_tables: "wf_tables example_tables"
  by (simp add: wf_tables_def example_tables_def)

lemma lookup_example_restaurant_1:
  "query_get_pk r_id (restaurants example_tables) 1 =
     Inr (Some \<lparr>r_id = 1, r_name = ''Sottocasa'', r_address = Some ''Harlem''\<rparr>)"
  by (simp add: query_get_pk_def example_tables_def)

lemma lookup_example_pizza_2:
  "query_get_pk p_id (pizzas example_tables) 2 =
     Inr (Some \<lparr>p_id = 2, p_name = ''Geri'', p_ingredients = ''Dough, Pesto''\<rparr>)"
  by (simp add: query_get_pk_def example_tables_def)

text \<open>
  The integrity of the store is an invariant of the API: whatever the request and whatever
  the store does, a handler leaves well-formed tables well-formed.
\<close>

lemma wf_tables_post:
  assumes "wf_tables t"
  shows "wf_tables (persisted (fst (RestaurantPizzas_post e t data)))"
  using post_persisted [of e t data] assms
  by (auto simp: wf_tables_insert_row)

lemma wf_tables_delete:
  assumes "wf_tables t"
  shows "wf_tables (persisted (fst (RestaurantByID_delete fault t i)))"
  using assms
  by (auto simp: RestaurantByID_delete_def session_commit_def session_delete_def flush_def
      session_rollback_def begin_session_def wf_tables_delete_row
      split: option.splits sum.splits)

lemma wf_tables_handle:
  "wf_tables t \<Longrightarrow> wf_tables (persisted (fst (handle e t req)))"
  by (cases req)
     (simp_all add: wf_tables_post wf_tables_delete Restaurants_get_def Pizzas_get_def
        RestaurantByID_get_def Let_def split: option.splits sum.splits)

text \<open>
  Within the range of the store's integers, an id that no restaurant carries is answered
  404 by both \<^verbatim>\<open>GET /restaurants/<id>\<close> and \<^verbatim>\<open>DELETE /restaurants/<id>\<close>, with the database
  left as found.
\<close>

lemma not_found_in_range:
  assumes "fits_int64 i" and "i \<notin> r_id ` set (restaurants t)"
  shows "RestaurantByID_get t i =
           (begin_session t,
            Returns \<lparr>status = 404,
                     body = JsonBody (JObj [(''error'', JStr ''Restaurant not found'')])\<rparr>)
         \<and> RestaurantByID_delete fault t i =
           (begin_session t,
            Returns \<lparr>status = 404,
                     body = JsonBody (JObj [(''error'', JStr ''Restaurant not found'')])\<rparr>)"
proof -
  from assms(2) have "find (\<lambda>row. r_id row = i) (restaurants t) = None"
    by (auto simp: find_None_iff)
  with assms(1) show ?thesis
    by (simp add: RestaurantByID_get_def RestaurantByID_delete_def query_get_pk_def response_defs)
qed

section \<open>Restaurants that do not exist\<close>

text \<open>
  Claim C4. The claim asks for 404 with the body \<^verbatim>\<open>{"error": "Restaurant not found"}\<close>
  from \<^verbatim>\<open>GET /restaurants/<id>\<close> and \<^verbatim>\<open>DELETE /restaurants/<id>\<close> for every id that
  resolves to no restaurant. The id \<open>2 ^ 63\<close> is such an id (the route accepts any digit
  string, and the store holds no integer that large), yet both handlers look the id up
  outside any \<^verbatim>\<open>try\<close>: the lookup raises an \<^verbatim>\<open>OverflowError\<close>, which leaves the handler,
  and no 404 is answered. The database is left as found.
\<close>

theorem lookup_overflow_escapes:
  "(2 ^ 63 :: int) \<notin> r_id ` set (restaurants example_tables)
   \<and> RestaurantByID_get t (2 ^ 63) =
       (begin_session t,
        Raises (OverflowError ''Python int too large to convert to SQLite INTEGER''))
   \<and> RestaurantByID_delete fault t (2 ^ 63) =
       (begin_session t,
        Raises (OverflowError ''Python int too large to convert to SQLite INTEGER''))"
  by (simp add: RestaurantByID_get_def RestaurantByID_delete_def query_get_pk_def
      example_tables_def)

section \<open>Deleting a restaurant\<close>

text \<open>
  Claim C5. For a restaurant that exists, \<^verbatim>\<open>DELETE /restaurants/<id>\<close> answers 204 with an
  empty body when the store accepts the commit. When the store raises any exception \<open>x\<close>
  at the commit, the session is rolled back, the committed tables are those the request
  found (nothing of the deletion persists), and the answer is 500 with the body
  \<^verbatim>\<open>{"error": "Failed to delete restaurant: <str(x)>"}\<close>.
\<close>

theorem delete_outcomes:
  assumes "query_get_pk r_id (restaurants t) i = Inr (Some r)"
  shows "snd (RestaurantByID_delete None t i) = Returns \<lparr>status = 204, body = TextBody []\<rparr>
         \<and> RestaurantByID_delete (Some x) t i =
           (begin_session t,
            Returns \<lparr>status = 500,
                     body = JsonBody
                       (JObj [(''error'', JStr (''Failed to delete restaurant: '' @ str x))])\<rparr>)"
  using assms
  by (simp add: RestaurantByID_delete_def session_commit_def response_defs)

theorem delete_outcomes_witness:
  "snd (RestaurantByID_delete None example_tables 1) =
     Returns \<lparr>status = 204, body = TextBody []\<rparr>
   \<and> RestaurantByID_delete (Some (OtherError ''connection lost'')) example_tables 1 =
     (begin_session example_tables,
      Returns \<lparr>status = 500,
               body = JsonBody
                 (JObj [(''error'', JStr ''Failed to delete restaurant: connection lost'')])\<rparr>)"
  using delete_outcomes [OF lookup_example_restaurant_1, of "OtherError ''connection lost''"]
  by simp

text \<open>
  Claim C6. A successful \<^verbatim>\<open>DELETE /restaurants/<id>\<close> on a well-formed store removes the
  restaurant row and exactly the association rows that restaurant owns: the pizzas are
  unchanged, the restaurants are the others in their order (one row fewer), the
  associations are those of the other restaurants in their order (as many fewer as the
  restaurant owned), the session is empty, the store is still well-formed (no orphaned
  association), and a following \<^verbatim>\<open>GET /restaurants/<id>\<close> for the same id answers 404.
\<close>

theorem delete_cascade:
  assumes "wf_tables t"
    and "query_get_pk r_id (restaurants t) i = Inr (Some r)"
  shows "let d = fst (RestaurantByID_delete None t i); t' = persisted d in
         added d = [] \<and> deleted d = []
         \<and> pizzas t' = pizzas t
         \<and> restaurants t' = filter (\<lambda>x. r_id x \<noteq> i) (restaurants t)
         \<and> length (restaurants t') + 1 = length (restaurants t)
         \<and> restaurant_pizzas t' = filter (\<lambda>rp. rp_restaurant_id rp \<noteq> i) (restaurant_pizzas t)
         \<and> length (restaurant_pizzas t') +
             length (filter (\<lambda>rp. rp_restaurant_id rp = i) (restaurant_pizzas t)) =
             length (restaurant_pizzas t)
         \<and> wf_tables t'
         \<and> RestaurantByID_get t' i =
             (begin_session t',
              Returns \<lparr>status = 404,
                       body = JsonBody (JObj [(''error'', JStr ''Restaurant not found'')])\<rparr>)"
proof -
  from query_get_pk_Some [OF assms(2)]
  have fits: "fits_int64 i" and i: "r_id r = i" and mem: "i \<in> r_id ` set (restaurants t)"
    by auto
  have d: "fst (RestaurantByID_delete None t i) = begin_session (delete_row r t)"
    using assms(2) by (simp add: RestaurantByID_delete_def commit_delete_begin)
  have one: "length (filter (\<lambda>x. r_id x = i) (restaurants t)) = 1"
    using assms(1) mem by (intro length_filter_key_one) (auto simp: wf_tables_def)
  have lr: "length (filter (\<lambda>x. r_id x \<noteq> i) (restaurants t)) + 1 = length (restaurants t)"
    using sum_length_filter_compl [of "\<lambda>x. r_id x = i" "restaurants t"] one by simp
  have lrp: "length (filter (\<lambda>rp. rp_restaurant_id rp \<noteq> i) (restaurant_pizzas t)) +
             length (filter (\<lambda>rp. rp_restaurant_id rp = i) (restaurant_pizzas t)) =
             length (restaurant_pizzas t)"
    using sum_length_filter_compl [of "\<lambda>rp. rp_restaurant_id rp = i" "restaurant_pizzas t"]
    by simp
  have wf: "wf_tables (delete_row r t)" using assms(1) by (rule wf_tables_delete_row)
  have gone: "i \<notin> r_id ` set (restaurants (delete_row r t))"
    by (auto simp: delete_row_def i)
  have get: "RestaurantByID_get (delete_row r t) i =
             (begin_session (delete_row r t),
              Returns \<lparr>status = 404,
                       body = JsonBody (JObj [(''error'', JStr ''Restaurant not found'')])\<rparr>)"
    using not_found_in_range [OF fits gone] by simp
  show ?thesis
    unfolding Let_def d
    using lr lrp wf get by (simp add: delete_row_def i)
qed

theorem delete_cascade_witness:
  "restaurants (persisted (fst (RestaurantByID_delete None example_tables 1))) =
     [\<lparr>r_id = 2, r_name = ''PizzArte'', r_address = None\<rparr>]
   \<and> pizzas (persisted (fst (RestaurantByID_delete None example_tables 1))) =
     pizzas example_tables
   \<and> restaurant_pizzas (persisted (fst (RestaurantByID_delete None example_tables 1))) =
     [\<lparr>rp_id = 3, rp_price = 7, rp_pizza_id = 1, rp_restaurant_id = 2\<rparr>]
   \<and> snd (RestaurantByID_get
       (persisted (fst (RestaurantByID_delete None example_tables 1))) 1) =
     Returns \<lparr>status = 404,
              body = JsonBody (JObj [(''error'', JStr ''Restaurant not found'')])\<rparr>"
  using delete_cascade [OF wf_example_tables lookup_example_restaurant_1]
  by (simp add: Let_def example_tables_def)

section \<open>Restaurant detail\<close>

text \<open>
  Claim C3. On a well-formed store, \<^verbatim>\<open>GET /restaurants/<id>\<close> for the id of an existing
  restaurant answers 200 with an object holding the restaurant's id, name and address (and
  no association collection) and a \<^verbatim>\<open>pizzas\<close> array with exactly one entry per association
  the restaurant owns, in their order: the \<open>k\<close>-th entry has the id, name and ingredients
  of the pizza the \<open>k\<close>-th owned association links to and the price of that very
  association.
\<close>

theorem restaurant_detail:
  assumes "wf_tables t"
    and "query_get_pk r_id (restaurants t) i = Inr (Some r)"
  shows "let owned = filter (\<lambda>rp. rp_restaurant_id rp = i) (restaurant_pizzas t) in
         \<exists>entries.
           RestaurantByID_get t i =
             (begin_session t,
              Returns \<lparr>status = 200,
                       body = JsonBody (JObj
                         [(''id'', JInt i),
                          (''name'', JStr (r_name r)),
                          (''address'', (case r_address r of None \<Rightarrow> JNull | Some a \<Rightarrow> JStr a)),
                          (''pizzas'', JArr entries)])\<rparr>)
           \<and> length entries = length owned
           \<and> (\<forall>k < length owned. \<exists>p.
                 find (\<lambda>p. p_id p = rp_pizza_id (owned ! k)) (pizzas t) = Some p
                 \<and> entries ! k =
                     JObj [(''id'', JInt (rp_pizza_id (owned ! k))),
                           (''name'', JStr (p_name p)),
                           (''ingredients'', JStr (p_ingredients p)),
                           (''price'', JInt (rp_price (owned ! k)))])"
proof -
  define owned where "owned = filter (\<lambda>rp. rp_restaurant_id rp = i) (restaurant_pizzas t)"
  define entries where "entries = map (\<lambda>rp. pizza_entry (the (rp_pizza t rp)) rp) owned"
  from query_get_pk_Some [OF assms(2)] have i: "r_id r = i" by simp
  have sub: "set owned \<subseteq> set (restaurant_pizzas t)" by (auto simp: owned_def)
  with assms(1) have "list_all (\<lambda>rp. rp_pizza t rp \<noteq> None) owned"
    using wf_rp_pizza by (fastforce simp: list_all_iff)
  then have build: "build_pizzas_data t [] owned = Inr entries"
    by (simp add: build_pizzas_data_ok entries_def)
  have get: "RestaurantByID_get t i =
      (begin_session t,
       Returns \<lparr>status = 200,
                body = JsonBody (JObj
                  [(''id'', JInt i),
                   (''name'', JStr (r_name r)),
                   (''address'', (case r_address r of None \<Rightarrow> JNull | Some a \<Rightarrow> JStr a)),
                   (''pizzas'', JArr entries)])\<rparr>)"
    using assms(2) build i
    by (simp add: RestaurantByID_get_def owned_restaurant_pizzas_def owned_def
        restaurant_to_dict_def response_defs)
  have len: "length entries = length owned" by (simp add: entries_def)
  have each: "\<exists>p. find (\<lambda>p. p_id p = rp_pizza_id (owned ! k)) (pizzas t) = Some p
                 \<and> entries ! k =
                     JObj [(''id'', JInt (rp_pizza_id (owned ! k))),
                           (''name'', JStr (p_name p)),
                           (''ingredients'', JStr (p_ingredients p)),
                           (''price'', JInt (rp_price (owned ! k)))]"
    if "k < length owned" for k
  proof -
    from that sub have "owned ! k \<in> set (restaurant_pizzas t)" by (auto simp: subset_iff)
    with assms(1) obtain p where p: "rp_pizza t (owned ! k) = Some p" "p_id p = rp_pizza_id (owned ! k)"
      using wf_rp_pizza by blast
    with that show ?thesis
      by (auto simp: entries_def pizza_entry_def rp_pizza_def)
  qed
  from get len each show ?thesis
    unfolding Let_def owned_def [symmetric] by blast
qed

theorem restaurant_detail_witness:
  "RestaurantByID_get example_tables 1 =
     (begin_session example_tables,
      Returns \<lparr>status = 200,
               body = JsonBody (JObj
                 [(''id'', JInt 1),
                  (''name'', JStr ''Sottocasa''),
                  (''address'', JStr ''Harlem''),
                  (''pizzas'', JArr
                    [JObj [(''id'', JInt 1), (''name'', JStr ''Emma''),
                           (''ingredients'', JStr ''Dough, Sauce, Cheese''), (''price'', JInt 5)],
                     JObj [(''id'', JInt 2), (''name'', JStr ''Geri''),
                           (''ingredients'', JStr ''Dough, Pesto''), (''price'', JInt 10)]])])\<rparr>)"
proof -
  let ?owned = "filter (\<lambda>rp. rp_restaurant_id rp = 1) (restaurant_pizzas example_tables)"
  have owned: "?owned = [\<lparr>rp_id = 1, rp_price = 5, rp_pizza_id = 1, rp_restaurant_id = 1\<rparr>,
                         \<lparr>rp_id = 2, rp_price = 10, rp_pizza_id = 2, rp_restaurant_id = 1\<rparr>]"
    by (simp add: example_tables_def)
  from restaurant_detail [OF wf_example_tables lookup_example_restaurant_1]
  obtain entries where
    get: "RestaurantByID_get example_tables 1 =
       (begin_session example_tables,
        Returns \<lparr>status = 200,
                 body = JsonBody (JObj
                   [(''id'', JInt 1), (''name'', JStr ''Sottocasa''),
                    (''address'', JStr ''Harlem''), (''pizzas'', JArr entries)])\<rparr>)"
    and len: "length entries = length ?owned"
    and each: "\<forall>k < length ?owned. \<exists>p.
        find (\<lambda>p. p_id p = rp_pizza_id (?owned ! k)) (pizzas example_tables) = Some p
        \<and> entries ! k =
            JObj [(''id'', JInt (rp_pizza_id (?owned ! k))),
                  (''name'', JStr (p_name p)),
                  (''ingredients'', JStr (p_ingredients p)),
                  (''price'', JInt (rp_price (?owned ! k)))]"
    unfolding Let_def by auto
  from len owned have l2: "length entries = 2" by simp
  from each [rule_format, of 0] owned have e0: "entries ! 0 =
      JObj [(''id'', JInt 1), (''name'', JStr ''Emma''),
            (''ingredients'', JStr ''Dough, Sauce, Cheese''), (''price'', JInt 5)]"
    by (auto simp: example_tables_def)
  from each [rule_format, of 1] owned have e1: "entries ! 1 =
      JObj [(''id'', JInt 2), (''name'', JStr ''Geri''),
            (''ingredients'', JStr ''Dough, Pesto''), (''price'', JInt 10)]"
    by (auto simp: example_tables_def)
  from l2 e0 e1 have "entries =
      [JObj [(''id'', JInt 1), (''name'', JStr ''Emma''),
             (''ingredients'', JStr ''Dough, Sauce, Cheese''), (''price'', JInt 5)],
       JObj [(''id'', JInt 2), (''name'', JStr ''Geri''),
             (''ingredients'', JStr ''Dough, Pesto''), (''price'', JInt 10)]]"
    by (cases entries; cases "tl entries"; cases "tl (tl entries)") auto
  with get show ?thesis by simp
qed

section \<open>Listing restaurants and pizzas\<close>

text \<open>
  Claim C9. \<^verbatim>\<open>GET /restaurants\<close> and \<^verbatim>\<open>GET /pizzas\<close> answer 200 with one object per row, in
  table order, holding id, name, address (restaurants) or id, name, ingredients (pizzas)
  and no association collection; they leave the committed tables and the session as they
  found them, so a second call right after the first gives the identical answer; and on
  an empty table the array is empty.
\<close>

theorem list_handlers_read_only:
  "Restaurants_get t =
     (begin_session t,
      Returns \<lparr>status = 200,
               body = JsonBody (JArr (map (\<lambda>r. JObj [(''id'', JInt (r_id r)),
                                                        (''name'', JStr (r_name r)),
                                                        (''address'', (case r_address r of
                                                            None \<Rightarrow> JNull | Some a \<Rightarrow> JStr a))])
                                          (restaurants t)))\<rparr>)
   \<and> Pizzas_get t =
     (begin_session t,
      Returns \<lparr>status = 200,
               body = JsonBody (JArr (map (\<lambda>p. JObj [(''id'', JInt (p_id p)),
                                                        (''name'', JStr (p_name p)),
                                                        (''ingredients'', JStr (p_ingredients p))])
                                          (pizzas t)))\<rparr>)
   \<and> handle e' (persisted (fst (handle e t GetRestaurants))) GetRestaurants =
       handle e t GetRestaurants
   \<and> handle e' (persisted (fst (handle e t GetPizzas))) GetPizzas =
       handle e t GetPizzas
   \<and> snd (Restaurants_get (t\<lparr>restaurants := []\<rparr>)) =
       Returns \<lparr>status = 200, body = JsonBody (JArr [])\<rparr>
   \<and> snd (Pizzas_get (t\<lparr>pizzas := []\<rparr>)) =
       Returns \<lparr>status = 200, body = JsonBody (JArr [])\<rparr>"
  by (simp add: Restaurants_get_def Pizzas_get_def restaurant_to_dict_def pizza_to_dict_def
      response_defs)

theorem list_handlers_read_only_witness:
  "snd (Restaurants_get example_tables) =
     Returns \<lparr>status = 200,
              body = JsonBody (JArr
                [JObj [(''id'', JInt 1), (''name'', JStr ''Sottocasa''), (''address'', JStr ''Harlem'')],
                 JObj [(''id'', JInt 2), (''name'', JStr ''PizzArte''), (''address'', JNull)]])\<rparr>
   \<and> snd (Pizzas_get example_tables) =
     Returns \<lparr>status = 200,
              body = JsonBody (JArr
                [JObj [(''id'', JInt 1), (''name'', JStr ''Emma''),
                       (''ingredients'', JStr ''Dough, Sauce, Cheese'')],
                 JObj [(''id'', JInt 2), (''name'', JStr ''Geri''),
                       (''ingredients'', JStr ''Dough, Pesto'')]])\<rparr>"
  using list_handlers_read_only [of example_tables quiet_env quiet_env]
  by (simp add: example_tables_def)

section \<open>Creating an association\<close>

text \<open>
  Claim C1, in the form that holds. For a \<^verbatim>\<open>POST /restaurant_pizzas\<close> whose body is a JSON object the
  checks run in a fixed order, each ending the request. If any of price, pizza_id,
  restaurant_id is null or absent the answer is 400 with the missing-fields error, and no
  lookup is made. Otherwise the restaurant and the pizza are both looked up before either
  result is tested; when both lookups return, a restaurant that does not exist is answered
  404 \<^verbatim>\<open>Restaurant not found\<close>, whether or not the pizza exists, and else a pizza that does
  not exist is answered 404 \<^verbatim>\<open>Pizza not found\<close>. In these three cases the database is left
  as found. The tables change or the answer is 201 only if all three fields are present
  and both lookups return a row.
\<close>

theorem post_validation_order:
  assumes "data = JObj kvs"
  shows
    "(dict_get kvs ''price'' = JNull \<or> dict_get kvs ''pizza_id'' = JNull \<or>
      dict_get kvs ''restaurant_id'' = JNull \<longrightarrow>
        RestaurantPizzas_post e t data =
          (begin_session t,
           Returns \<lparr>status = 400,
                    body = JsonBody (JObj [(''errors'',
                      JArr [JStr ''Missing required fields: price, pizza_id, restaurant_id''])])\<rparr>))
     \<and> (dict_get kvs ''price'' \<noteq> JNull \<and> dict_get kvs ''pizza_id'' \<noteq> JNull \<and>
        dict_get kvs ''restaurant_id'' \<noteq> JNull \<and>
        query_get (other_ident e) r_id (restaurants t) (dict_get kvs ''restaurant_id'') = Inr None \<and>
        query_get (other_ident e) p_id (pizzas t) (dict_get kvs ''pizza_id'') = Inr pz \<longrightarrow>
        RestaurantPizzas_post e t data =
          (begin_session t,
           Returns \<lparr>status = 404,
                    body = JsonBody (JObj [(''error'', JStr ''Restaurant not found'')])\<rparr>))
     \<and> (dict_get kvs ''price'' \<noteq> JNull \<and> dict_get kvs ''pizza_id'' \<noteq> JNull \<and>
        dict_get kvs ''restaurant_id'' \<noteq> JNull \<and>
        query_get (other_ident e) r_id (restaurants t) (dict_get kvs ''restaurant_id'') =
          Inr (Some r) \<and>
        query_get (other_ident e) p_id (pizzas t) (dict_get kvs ''pizza_id'') = Inr None \<longrightarrow>
        RestaurantPizzas_post e t data =
          (begin_session t,
           Returns \<lparr>status = 404,
                    body = JsonBody (JObj [(''error'', JStr ''Pizza not found'')])\<rparr>))
     \<and> (persisted (fst (RestaurantPizzas_post e t data)) \<noteq> t \<or>
        (\<exists>b. snd (RestaurantPizzas_post e t data) = Returns \<lparr>status = 201, body = b\<rparr>) \<longrightarrow>
        dict_get kvs ''price'' \<noteq> JNull \<and> dict_get kvs ''pizza_id'' \<noteq> JNull \<and>
        dict_get kvs ''restaurant_id'' \<noteq> JNull \<and>
        (\<exists>r' p'.
           query_get (other_ident e) r_id (restaurants t) (dict_get kvs ''restaurant_id'') =
             Inr (Some r') \<and>
           query_get (other_ident e) p_id (pizzas t) (dict_get kvs ''pizza_id'') =
             Inr (Some p')))"
  using assms
  by (auto simp: RestaurantPizzas_post_def response_defs Let_def
      split: option.splits sum.splits)

theorem post_validation_order_witness:
  "RestaurantPizzas_post quiet_env example_tables
     (JObj [(''pizza_id'', JInt 1), (''restaurant_id'', JInt 1)]) =
     (begin_session example_tables,
      Returns \<lparr>status = 400,
               body = JsonBody (JObj [(''errors'',
                 JArr [JStr ''Missing required fields: price, pizza_id, restaurant_id''])])\<rparr>)
   \<and> RestaurantPizzas_post quiet_env example_tables
     (JObj [(''price'', JInt 5), (''pizza_id'', JInt 9), (''restaurant_id'', JInt 9)]) =
     (begin_session example_tables,
      Returns \<lparr>status = 404,
               body = JsonBody (JObj [(''error'', JStr ''Restaurant not found'')])\<rparr>)
   \<and> RestaurantPizzas_post quiet_env example_tables
     (JObj [(''price'', JInt 5), (''pizza_id'', JInt 9), (''restaurant_id'', JInt 1)]) =
     (begin_session example_tables,
      Returns \<lparr>status = 404,
               body = JsonBody (JObj [(''error'', JStr ''Pizza not found'')])\<rparr>)"
proof -
  have f9: "fits_int64 9" by (simp add: fits_int64_def)
  have r9: "query_get_pk r_id (restaurants example_tables) 9 = Inr None"
    by (simp add: query_get_pk_def f9 example_tables_def)
  have p9: "query_get_pk p_id (pizzas example_tables) 9 = Inr None"
    by (simp add: query_get_pk_def f9 example_tables_def)
  show ?thesis
    using post_validation_order
        [where kvs = "[(''pizza_id'', JInt 1), (''restaurant_id'', JInt 1)]"
           and t = example_tables and e = quiet_env, OF refl]
      post_validation_order
        [where kvs = "[(''price'', JInt 5), (''pizza_id'', JInt 9), (''restaurant_id'', JInt 9)]"
           and t = example_tables and e = quiet_env and pz = None, OF refl]
      post_validation_order
        [where kvs = "[(''price'', JInt 5), (''pizza_id'', JInt 9), (''restaurant_id'', JInt 1)]"
           and t = example_tables and e = quiet_env
           and r = "\<lparr>r_id = 1, r_name = ''Sottocasa'', r_address = Some ''Harlem''\<rparr>", OF refl]
    by (simp add: r9 p9 lookup_example_restaurant_1)
qed

text \<open>
  The claim as stated fails at two requests. With restaurant_id 9, which no restaurant
  carries, and pizza_id \<open>2 ^ 63\<close>, the pizza lookup raises before the restaurant is tested
  and decides the outcome: an \<^verbatim>\<open>OverflowError\<close> leaves the handler where the claim promises
  404 \<^verbatim>\<open>Restaurant not found\<close>. With the body \<^verbatim>\<open>null\<close>, in which all three fields are absent,
  an \<^verbatim>\<open>AttributeError\<close> leaves the handler where the claim promises the 400 missing-fields
  error.
\<close>

theorem post_validation_order_counterexample:
  "(9 :: int) \<notin> r_id ` set (restaurants example_tables)
   \<and> snd (RestaurantPizzas_post quiet_env example_tables
       (JObj [(''price'', JInt 5), (''pizza_id'', JInt (2 ^ 63)), (''restaurant_id'', JInt 9)])) =
     Raises (OverflowError ''Python int too large to convert to SQLite INTEGER'')
   \<and> snd (RestaurantPizzas_post quiet_env example_tables
       (JObj [(''price'', JInt 5), (''pizza_id'', JInt (2 ^ 63)), (''restaurant_id'', JInt 9)])) \<noteq>
     Returns \<lparr>status = 404,
              body = JsonBody (JObj [(''error'', JStr ''Restaurant not found'')])\<rparr>
   \<and> snd (RestaurantPizzas_post quiet_env example_tables JNull) =
     Raises (AttributeError ''NoneType object has no attribute get'')
   \<and> snd (RestaurantPizzas_post quiet_env example_tables JNull) \<noteq>
     Returns \<lparr>status = 400,
              body = JsonBody (JObj [(''errors'',
                JArr [JStr ''Missing required fields: price, pizza_id, restaurant_id''])])\<rparr>"
proof -
  have f9: "fits_int64 9" by (simp add: fits_int64_def)
  show ?thesis
    by (simp add: RestaurantPizzas_post_def Let_def query_get_pk_def f9 example_tables_def)
qed

text \<open>
  Claim C2. For a request that passes the presence and existence checks with an integer
  price: a price below 1 or above 30 is answered, whatever the store would do, with 400
  and an \<^verbatim>\<open>errors\<close> array holding the price-range message, and the database is left as
  found (nothing written, session empty); a price from 1 to 30, both bounds included, is
  persisted when the store raises nothing: the tables gain exactly the new association row
  with a fresh id, and the answer is 201 with the serialised association.
\<close>

theorem post_price_range:
  assumes "data = JObj kvs"
    and "dict_get kvs ''price'' = JInt price"
    and "dict_get kvs ''pizza_id'' = JInt pid"
    and "dict_get kvs ''restaurant_id'' = JInt rid"
    and "query_get_pk r_id (restaurants t) rid = Inr (Some r)"
    and "query_get_pk p_id (pizzas t) pid = Inr (Some p)"
  shows
    "(price < 1 \<or> 30 < price \<longrightarrow>
        RestaurantPizzas_post e t data =
          (begin_session t,
           Returns \<lparr>status = 400,
                    body = JsonBody (JObj [(''errors'', JArr [JStr price_range_message])])\<rparr>))
     \<and> (1 \<le> price \<and> price \<le> 30 \<and> commit_fault e = None \<and> reply_fault e = None \<longrightarrow>
        RestaurantPizzas_post e t data =
          (begin_session
             (t\<lparr>restaurant_pizzas := restaurant_pizzas t @
                  [\<lparr>rp_id = fresh_id (map rp_id (restaurant_pizzas t)), rp_price = price,
                    rp_pizza_id = pid, rp_restaurant_id = rid\<rparr>]\<rparr>),
           Returns \<lparr>status = 201,
                    body = JsonBody (JObj
                      [(''id'', JInt (fresh_id (map rp_id (restaurant_pizzas t)))),
                       (''price'', JInt price),
                       (''restaurant_id'', JInt rid),
                       (''pizza_id'', JInt pid),
                       (''restaurant'', JObj (restaurant_to_dict r)),
                       (''pizza'', JObj (pizza_to_dict p))])\<rparr>))"
proof -
  from query_get_pk_Some [OF assms(5)] have rid: "r_id r = rid" by simp
  from query_get_pk_Some [OF assms(6)] have pid: "p_id p = pid" by simp
  show ?thesis
    using assms rid pid
    by (auto simp: RestaurantPizzas_post_def Let_def post_try_def RestaurantPizza_def
        validate_price_def session_commit_def session_add_def flush_def insert_row_def
        assign_id_def restaurant_pizza_to_dict_def response_defs begin_session_def
        session_rollback_def)
qed

theorem post_price_range_witness:
  "RestaurantPizzas_post quiet_env example_tables
     (JObj [(''price'', JInt 0), (''pizza_id'', JInt 2), (''restaurant_id'', JInt 1)]) =
     (begin_session example_tables,
      Returns \<lparr>status = 400,
               body = JsonBody (JObj [(''errors'', JArr [JStr price_range_message])])\<rparr>)
   \<and> RestaurantPizzas_post quiet_env example_tables
     (JObj [(''price'', JInt 31), (''pizza_id'', JInt 2), (''restaurant_id'', JInt 1)]) =
     (begin_session example_tables,
      Returns \<lparr>status = 400,
               body = JsonBody (JObj [(''errors'', JArr [JStr price_range_message])])\<rparr>)
   \<and> snd (RestaurantPizzas_post quiet_env example_tables
     (JObj [(''price'', JInt 1), (''pizza_id'', JInt 2), (''restaurant_id'', JInt 1)])) =
     Returns \<lparr>status = 201,
              body = JsonBody (JObj
                [(''id'', JInt 4), (''price'', JInt 1), (''restaurant_id'', JInt 1),
                 (''pizza_id'', JInt 2),
                 (''restaurant'', JObj [(''id'', JInt 1), (''name'', JStr ''Sottocasa''),
                                        (''address'', JStr ''Harlem'')]),
                 (''pizza'', JObj [(''id'', JInt 2), (''name'', JStr ''Geri''),
                                   (''ingredients'', JStr ''Dough, Pesto'')])])\<rparr>
   \<and> restaurant_pizzas (persisted (fst (RestaurantPizzas_post quiet_env example_tables
     (JObj [(''price'', JInt 30), (''pizza_id'', JInt 2), (''restaurant_id'', JInt 1)])))) =
     restaurant_pizzas example_tables @
       [\<lparr>rp_id = 4, rp_price = 30, rp_pizza_id = 2, rp_restaurant_id = 1\<rparr>]"
proof -
  have fresh: "fresh_id (map rp_id (restaurant_pizzas example_tables)) = 4"
    by (simp add: fresh_id_def example_tables_def)
  note inst = post_price_range [where t = example_tables and pid = 2 and rid = 1 and e = quiet_env,
      OF refl _ _ _ lookup_example_restaurant_1 lookup_example_pizza_2]
  show ?thesis
    using inst [where kvs = "[(''price'', JInt 0), (''pizza_id'', JInt 2), (''restaurant_id'', JInt 1)]"
                  and price = 0]
      inst [where kvs = "[(''price'', JInt 31), (''pizza_id'', JInt 2), (''restaurant_id'', JInt 1)]"
                  and price = 31]
      inst [where kvs = "[(''price'', JInt 1), (''pizza_id'', JInt 2), (''restaurant_id'', JInt 1)]"
                  and price = 1]
      inst [where kvs = "[(''price'', JInt 30), (''pizza_id'', JInt 2), (''restaurant_id'', JInt 1)]"
                  and price = 30]
    by (simp add: fresh restaurant_to_dict_def pizza_to_dict_def)
qed

text \<open>
  Claim C10. The presence check compares with \<^verbatim>\<open>None\<close>, not with truthiness. A price of 0
  with ids that resolve gets past it and is answered with the 400 price-range error, which
  is not the missing-fields error; a restaurant_id of 0 gets past it and, no restaurant
  having id 0 and the pizza lookup returning, is answered 404 \<^verbatim>\<open>Restaurant not found\<close>; a
  pizza_id of 0 gets past it and, the restaurant resolving and no pizza having id 0, is
  answered 404 \<^verbatim>\<open>Pizza not found\<close>.
\<close>

theorem presence_is_not_truthiness:
  assumes "data = JObj kvs"
  shows
    "(dict_get kvs ''price'' = JInt 0 \<and>
      query_get (other_ident e) r_id (restaurants t) (dict_get kvs ''restaurant_id'') =
        Inr (Some r) \<and>
      query_get (other_ident e) p_id (pizzas t) (dict_get kvs ''pizza_id'') = Inr (Some p) \<longrightarrow>
        RestaurantPizzas_post e t data =
          (begin_session t,
           Returns \<lparr>status = 400,
                    body = JsonBody (JObj [(''errors'', JArr [JStr price_range_message])])\<rparr>))
     \<and> (dict_get kvs ''price'' \<noteq> JNull \<and> dict_get kvs ''pizza_id'' \<noteq> JNull \<and>
        dict_get kvs ''restaurant_id'' = JInt 0 \<and> 0 \<notin> r_id ` set (restaurants t) \<and>
        query_get (other_ident e) p_id (pizzas t) (dict_get kvs ''pizza_id'') = Inr pz \<longrightarrow>
        RestaurantPizzas_post e t data =
          (begin_session t,
           Returns \<lparr>status = 404,
                    body = JsonBody (JObj [(''error'', JStr ''Restaurant not found'')])\<rparr>))
     \<and> (dict_get kvs ''price'' \<noteq> JNull \<and> dict_get kvs ''pizza_id'' = JInt 0 \<and>
        query_get (other_ident e) r_id (restaurants t) (dict_get kvs ''restaurant_id'') =
          Inr (Some r) \<and>
        0 \<notin> p_id ` set (pizzas t) \<longrightarrow>
        RestaurantPizzas_post e t data =
          (begin_session t,
           Returns \<lparr>status = 404,
                    body = JsonBody (JObj [(''error'', JStr ''Pizza not found'')])\<rparr>))
     \<and> price_range_message \<noteq> ''Missing required fields: price, pizza_id, restaurant_id''"
proof -
  have nf_r: "0 \<notin> r_id ` set (restaurants t) \<Longrightarrow> query_get_pk r_id (restaurants t) 0 = Inr None"
    by (auto simp: query_get_pk_def find_None_iff)
  have nf_p: "0 \<notin> p_id ` set (pizzas t) \<Longrightarrow> query_get_pk p_id (pizzas t) 0 = Inr None"
    by (auto simp: query_get_pk_def find_None_iff)
  have a: "query_get (other_ident e) r_id (restaurants t) v = Inr (Some r) \<Longrightarrow>
           dict_get kvs ''price'' = JInt 0 \<Longrightarrow>
           query_get (other_ident e) p_id (pizzas t) w = Inr (Some p) \<Longrightarrow>
           v = dict_get kvs ''restaurant_id'' \<Longrightarrow> w = dict_get kvs ''pizza_id'' \<Longrightarrow>
           RestaurantPizzas_post e t (JObj kvs) =
             (begin_session t,
              Returns \<lparr>status = 400,
                       body = JsonBody (JObj [(''errors'', JArr [JStr price_range_message])])\<rparr>)"
    for v w
    by (auto simp: RestaurantPizzas_post_def Let_def post_try_def RestaurantPizza_def
        validate_price_def response_defs)
  show ?thesis
    using assms nf_r nf_p a
    by (auto simp: RestaurantPizzas_post_def Let_def response_defs price_range_message_def)
qed

theorem presence_is_not_truthiness_witness:
  "RestaurantPizzas_post quiet_env example_tables
     (JObj [(''price'', JInt 0), (''pizza_id'', JInt 2), (''restaurant_id'', JInt 1)]) =
     (begin_session example_tables,
      Returns \<lparr>status = 400,
               body = JsonBody (JObj [(''errors'', JArr [JStr price_range_message])])\<rparr>)
   \<and> RestaurantPizzas_post quiet_env example_tables
     (JObj [(''price'', JInt 5), (''pizza_id'', JInt 2), (''restaurant_id'', JInt 0)]) =
     (begin_session example_tables,
      Returns \<lparr>status = 404,
               body = JsonBody (JObj [(''error'', JStr ''Restaurant not found'')])\<rparr>)
   \<and> RestaurantPizzas_post quiet_env example_tables
     (JObj [(''price'', JInt 5), (''pizza_id'', JInt 0), (''restaurant_id'', JInt 1)]) =
     (begin_session example_tables,
      Returns \<lparr>status = 404,
               body = JsonBody (JObj [(''error'', JStr ''Pizza not found'')])\<rparr>)"
  using presence_is_not_truthiness
      [where kvs = "[(''price'', JInt 0), (''pizza_id'', JInt 2), (''restaurant_id'', JInt 1)]"
         and t = example_tables and e = quiet_env
         and r = "\<lparr>r_id = 1, r_name = ''Sottocasa'', r_address = Some ''Harlem''\<rparr>"
         and p = "\<lparr>p_id = 2, p_name = ''Geri'', p_ingredients = ''Dough, Pesto''\<rparr>", OF refl]
    presence_is_not_truthiness
      [where kvs = "[(''price'', JInt 5), (''pizza_id'', JInt 2), (''restaurant_id'', JInt 0)]"
         and t = example_tables and e = quiet_env
         and pz = "Some \<lparr>p_id = 2, p_name = ''Geri'', p_ingredients = ''Dough, Pesto''\<rparr>", OF refl]
    presence_is_not_truthiness
      [where kvs = "[(''price'', JInt 5), (''pizza_id'', JInt 0), (''restaurant_id'', JInt 1)]"
         and t = example_tables and e = quiet_env
         and r = "\<lparr>r_id = 1, r_name = ''Sottocasa'', r_address = Some ''Harlem''\<rparr>", OF refl]
  by (simp add: lookup_example_restaurant_1 lookup_example_pizza_2)
     (simp add: example_tables_def)

text \<open>
  Claim C7. The claim asks that a \<^verbatim>\<open>POST /restaurant_pizzas\<close> that fails, for whatever reason,
  persist no row. The reply is built inside the \<^verbatim>\<open>try\<close> block after the commit: when
  building it raises (here the store is lost while the committed row is reloaded), the
  \<^verbatim>\<open>except\<close> clause rolls back a session that has nothing left to undo and answers 500,
  and the new row is in the table.
\<close>

theorem post_reply_fault_persists:
  "RestaurantPizzas_post
     \<lparr>commit_fault = None, reply_fault = Some (OtherError ''connection lost''),
      other_ident = other\<rparr>
     example_tables
     (JObj [(''price'', JInt 5), (''pizza_id'', JInt 2), (''restaurant_id'', JInt 1)]) =
     (begin_session
        (example_tables\<lparr>restaurant_pizzas := restaurant_pizzas example_tables @
           [\<lparr>rp_id = 4, rp_price = 5, rp_pizza_id = 2, rp_restaurant_id = 1\<rparr>]\<rparr>),
      Returns \<lparr>status = 500,
               body = JsonBody (JObj [(''error'',
                 JStr ''An unexpected server error occurred: connection lost'')])\<rparr>)"
proof -
  have fresh: "fresh_id (map rp_id (restaurant_pizzas example_tables)) = 4"
    by (simp add: fresh_id_def example_tables_def)
  show ?thesis
    by (simp add: RestaurantPizzas_post_def Let_def lookup_example_restaurant_1
        lookup_example_pizza_2 post_try_def RestaurantPizza_def validate_price_def
        commit_add_begin insert_row_def assign_id_def fresh response_defs)
qed

text \<open>
  Claim C8. A request body that is not a JSON object is not answered with an \<^verbatim>\<open>error\<close> or
  \<^verbatim>\<open>errors\<close> body: \<^verbatim>\<open>data.get\<close> stands before the \<^verbatim>\<open>try\<close> block, so for the bodies
  \<^verbatim>\<open>[]\<close> and \<^verbatim>\<open>null\<close> an \<^verbatim>\<open>AttributeError\<close> escapes the handler and no response of the
  handler's own is produced.
\<close>

theorem post_non_object_raises:
  "handle e t (PostRestaurantPizzas (JArr [])) =
     (begin_session t, Raises (AttributeError ''list object has no attribute get''))
   \<and> handle e t (PostRestaurantPizzas JNull) =
     (begin_session t, Raises (AttributeError ''NoneType object has no attribute get''))"
  by (simp add: RestaurantPizzas_post_def)

end
